theory Spec2Isabelle
  imports Main
begin

section \<open>Python values used by the chat page\<close>

text \<open>
  A Python \<^verbatim>\<open>str\<close> is a sequence of Unicode code points; it is modelled as a list of
  natural numbers, so that \<^verbatim>\<open>strip()\<close> and truthiness mean what they mean in Python also
  for text outside ASCII. \<open>ascii\<close> embeds an ASCII literal.
\<close>

type_synonym pystr = "nat list"

definition ascii :: "string \<Rightarrow> pystr" where
  "ascii s = map of_char s"

text \<open>The code points for which Python's \<^verbatim>\<open>str.isspace\<close> holds; \<^verbatim>\<open>strip()\<close> removes them.\<close>

definition isspace :: "nat \<Rightarrow> bool" where
  "isspace c \<longleftrightarrow>
     (9 \<le> c \<and> c \<le> 13) \<or> (28 \<le> c \<and> c \<le> 32) \<or> c = 133 \<or> c = 160 \<or> c = 5760 \<or>
     (8192 \<le> c \<and> c \<le> 8202) \<or> c = 8232 \<or> c = 8233 \<or> c = 8239 \<or> c = 8287 \<or> c = 12288"

definition strip :: "pystr \<Rightarrow> pystr" where
  "strip s = rev (dropWhile isspace (rev (dropWhile isspace s)))"

function str_nat :: "nat \<Rightarrow> pystr" where
  "str_nat n = (if n < 10 then [48 + n] else str_nat (n div 10) @ [48 + n mod 10])"
  by pat_completeness auto
termination
  by (relation "measure id") auto

declare str_nat.simps [simp del]

definition str_int :: "int \<Rightarrow> pystr" where
  "str_int i = (if i < 0 then 45 # str_nat (nat (- i)) else str_nat (nat i))"

text \<open>
  Exceptions are values. The three classes that \<^verbatim>\<open>get_voice_input\<close> names are kept apart;
  \<open>OtherException\<close> is every other class derived from \<^verbatim>\<open>Exception\<close>, and
  \<open>OtherBaseException\<close> is a class derived from \<^verbatim>\<open>BaseException\<close> only
  (\<^verbatim>\<open>KeyboardInterrupt\<close>, \<^verbatim>\<open>SystemExit\<close>), which \<^verbatim>\<open>except Exception\<close> does not
  catch. Each carries the text that \<^verbatim>\<open>str(e)\<close> gives.
\<close>

datatype exn =
    WaitTimeoutError pystr
  | UnknownValueError pystr
  | RequestError pystr
  | OtherException pystr
  | OtherBaseException pystr

fun str_exn :: "exn \<Rightarrow> pystr" where
  "str_exn (WaitTimeoutError m) = m"
| "str_exn (UnknownValueError m) = m"
| "str_exn (RequestError m) = m"
| "str_exn (OtherException m) = m"
| "str_exn (OtherBaseException m) = m"

fun is_Exception :: "exn \<Rightarrow> bool" where
  "is_Exception (OtherBaseException m) = False"
| "is_Exception e = True"

section \<open>What the page renders\<close>

type_synonym audio = "nat list"

text \<open>
  The display calls of the script, in the order they are made. Widgets (select boxes,
  slider, text area, buttons) are inputs of a run and are part of \<open>env\<close> below.
\<close>

datatype ui =
    Title pystr
  | Subheader pystr
  | Metric pystr pystr
  | Write pystr
  | Info pystr
  | Success pystr
  | Warning pystr
  | Error pystr
  | Audio audio
  | Markdown pystr

section \<open>Session state and the inputs of one script run\<close>

record turn =
  human :: pystr
  AI :: pystr

datatype persona = Default | Expert | Creative

datatype model_name = Gemma2_9b_it | Mixtral_8x7b_32768 | Llama2_70b_4096

text \<open>
  \<^verbatim>\<open>st.session_state\<close>. \<open>start_time\<close> is a \<^verbatim>\<open>datetime\<close> (microseconds on the
  time line) or \<^verbatim>\<open>None\<close>.
\<close>

record session_state =
  chat_history :: "turn list"
  total_messages :: int
  start_time :: "int option"
  selected_persona :: persona
  user_input :: pystr

text \<open>
  Streamlit runs the script once per widget event, and \<^verbatim>\<open>st.button\<close> returns
  \<^verbatim>\<open>True\<close> only in the run that its own click started: a run sees at most one button
  pressed.
\<close>

datatype button = NoButton | ClearChatHistory | UseVoiceInput | Send | NewTopic

text \<open>
  The request that reaches the chat-completion service: the model, the persona's prompt
  template, the turns the memory replays, and the new input.
\<close>

record prompt_template =
  input_variables :: "pystr list"
  template :: pystr

record request =
  req_model :: model_name
  req_api_key :: pystr
  req_prompt :: prompt_template
  req_history :: "(pystr \<times> pystr) list"
  req_input :: pystr

text \<open>
  Everything one run of \<^verbatim>\<open>main()\<close> reads from outside: the widget values, the button
  that started the run, the clock at the two places it is read, and the outcome of each
  external service (microphone, speech recognition, chat completion, speech synthesis),
  which either returns or raises.
\<close>

record env =
  model :: model_name
  memory_length :: int
  persona :: persona
  text_area :: pystr
  pressed :: button
  groq_api_key :: pystr
  now_sidebar :: int
  now_send :: int
  microphone :: "exn option"
  listen :: "exn + audio"
  recognize_google :: "audio \<Rightarrow> exn + pystr"
  chat :: "request \<Rightarrow> exn + pystr"
  gTTS :: "pystr \<Rightarrow> exn + audio"

section \<open>The functions of main.py\<close>

text \<open>
  \<^verbatim>\<open>initialize_session_state\<close>: a fresh session has no keys (\<open>None\<close>) and gets the
  defaults; the three keys are only ever created here, together, and never deleted.
  \<open>selected_persona\<close> and \<open>user_input\<close> are written by their widgets before they are read.
\<close>

definition initialize_session_state :: "session_state option \<Rightarrow> session_state" where
  "initialize_session_state st =
     (case st of
        None \<Rightarrow> \<lparr>chat_history = [], total_messages = 0, start_time = None,
                  selected_persona = Default, user_input = []\<rparr>
      | Some s \<Rightarrow> s)"

definition personas :: "persona \<Rightarrow> pystr" where
  "personas p =
     (case p of
        Default \<Rightarrow> ascii ''You are a helpful AI assistant.\<newline>                     Current conversation:\<newline>                     {history}\<newline>                     Human: {input}\<newline>                     AI:''
      | Expert \<Rightarrow> ascii ''You are an expert consultant with deep knowledge across multiple fields.\<newline>                    Please provide detailed, technical responses when appropriate.\<newline>                    Current conversation:\<newline>                    {history}\<newline>                    Human: {input}\<newline>                    Expert:''
      | Creative \<Rightarrow> ascii ''You are a creative and imaginative AI that thinks outside the box.\<newline>                      Feel free to use metaphors and analogies in your responses.\<newline>                      Current conversation:\<newline>                      {history}\<newline>                      Human: {input}\<newline>                      Creative AI:'')"

definition get_custom_prompt :: "session_state \<Rightarrow> prompt_template" where
  "get_custom_prompt s =
     \<lparr>input_variables = [ascii ''history'', ascii ''input''],
      template = personas (selected_persona s)\<rparr>"

text \<open>
  \<^verbatim>\<open>display_chat_statistics\<close>: a \<^verbatim>\<open>datetime\<close> is always truthy, so the panel is shown
  exactly when \<open>start_time\<close> is set. \<^verbatim>\<open>timedelta.seconds\<close> is the seconds within the day.
\<close>

definition display_chat_statistics :: "env \<Rightarrow> session_state \<Rightarrow> ui list" where
  "display_chat_statistics ev s =
     (case start_time s of
        None \<Rightarrow> []
      | Some t0 \<Rightarrow>
          (let duration = now_sidebar ev - t0;
               seconds = (duration div 1000000) mod 86400
           in [Subheader ([0x1F4CA] @ ascii '' Chat Statistics''),
               Metric (ascii ''Messages'') (str_nat (length (chat_history s))),
               Metric (ascii ''Duration'')
                 (str_int (seconds div 60) @ ascii ''m '' @ str_int (seconds mod 60) @ ascii ''s'')]))"

text \<open>
  \<^verbatim>\<open>get_voice_input\<close>: the microphone is opened outside the \<^verbatim>\<open>try\<close>, so its failure
  escapes; inside the \<^verbatim>\<open>try\<close> the three named exceptions are reported and fall through
  to \<^verbatim>\<open>return ""\<close>, any other exception escapes. The result is what was displayed and
  either the escaping exception or the returned text.
\<close>

definition get_voice_input :: "env \<Rightarrow> ui list \<times> (exn + pystr)" where
  "get_voice_input ev =
     (case microphone ev of
        Some e \<Rightarrow> ([], Inl e)
      | None \<Rightarrow>
          (let speak = Info ([0x1F399, 0xFE0F] @ ascii '' Speak now...'')
           in case (case listen ev of
                      Inl e \<Rightarrow> Inl e
                    | Inr audio \<Rightarrow> recognize_google ev audio) of
                Inr text \<Rightarrow> ([speak], Inr text)
              | Inl (WaitTimeoutError m) \<Rightarrow>
                  ([speak, Warning ([0x23F3] @ ascii '' Listening timed out. Please try again.'')],
                   Inr [])
              | Inl (UnknownValueError m) \<Rightarrow>
                  ([speak, Warning ([0x26A0, 0xFE0F] @
                      ascii '' Could not understand the audio. Please try again.'')],
                   Inr [])
              | Inl (RequestError m) \<Rightarrow>
                  ([speak, Error ([0x26A0, 0xFE0F] @
                      ascii '' Could not request results from the speech recognition service: '' @ m)],
                   Inr [])
              | Inl (OtherException m) \<Rightarrow> ([speak], Inl (OtherException m))
              | Inl (OtherBaseException m) \<Rightarrow> ([speak], Inl (OtherBaseException m))))"

definition text_to_audio :: "env \<Rightarrow> pystr \<Rightarrow> exn + audio" where
  "text_to_audio ev text = gTTS ev text"

text \<open>
  Modelled from the spec: \<^verbatim>\<open>ConversationBufferWindowMemory\<close> is a class of the langchain
  library, which is not part of the repository's sources. The spec describes it as a
  bounded sliding window: the memory is filled with the (input, output) pairs of the
  turns, and replays the last N of them (N the configured window size) as the
  conversational context of a request. \<open>clear\<close> empties it.
\<close>

record memory =
  mem_k :: int
  mem_turns :: "(pystr \<times> pystr) list"

definition ConversationBufferWindowMemory :: "int \<Rightarrow> memory" where
  "ConversationBufferWindowMemory n = \<lparr>mem_k = n, mem_turns = []\<rparr>"

definition save_context :: "memory \<Rightarrow> pystr \<Rightarrow> pystr \<Rightarrow> memory" where
  "save_context m inp out = m\<lparr>mem_turns := mem_turns m @ [(inp, out)]\<rparr>"

definition load_memory_variables :: "memory \<Rightarrow> (pystr \<times> pystr) list" where
  "load_memory_variables m =
     (if mem_k m > 0 then drop (length (mem_turns m) - nat (mem_k m)) (mem_turns m) else [])"

definition clear :: "memory \<Rightarrow> memory" where
  "clear m = m\<lparr>mem_turns := []\<rparr>"

text \<open>
  Modelled from the spec: \<^verbatim>\<open>ChatGroq\<close> and \<^verbatim>\<open>ConversationChain\<close> are library classes
  as well. Per the spec's contract of the conversation handler, a call takes the new
  input, the persona template, the turns replayed by the memory and the model identifier,
  invokes the chat-completion service once, and yields its response text or its error.
  The chain holds the memory object by reference; the model passes the memory alongside.
  A call returns, first, the requests it sent to the service; what the client library
  does below one such request is not part of the repository.
\<close>

record conversation =
  llm_model :: model_name
  llm_api_key :: pystr
  chain_prompt :: prompt_template

definition chain_request :: "conversation \<Rightarrow> memory \<Rightarrow> pystr \<Rightarrow> request" where
  "chain_request c m inp =
     \<lparr>req_model = llm_model c, req_api_key = llm_api_key c, req_prompt = chain_prompt c,
      req_history = load_memory_variables m, req_input = inp\<rparr>"

definition conversation_call ::
  "(request \<Rightarrow> exn + pystr) \<Rightarrow> conversation \<Rightarrow> memory \<Rightarrow> pystr \<Rightarrow>
     request list \<times> (exn + pystr \<times> memory)" where
  "conversation_call service c m inp =
     (let req = chain_request c m inp
      in ([req],
          case service req of
            Inl e \<Rightarrow> Inl e
          | Inr response \<Rightarrow> Inr (response, save_context m inp response)))"

text \<open>The loop that loads the chat history into the memory (lines 157 to 162).\<close>

definition load_chat_history :: "turn list \<Rightarrow> memory \<Rightarrow> memory" where
  "load_chat_history history m =
     fold (\<lambda>message mem. save_context mem (human message) (AI message)) history m"

text \<open>
  The loop that displays the chat history (lines 164 to 178). The header of every
  assistant reply is formatted with the persona selected now. Speech synthesis may raise;
  then the run ends there, with what was displayed so far.
\<close>

definition persona_name :: "persona \<Rightarrow> pystr" where
  "persona_name p =
     (case p of Default \<Rightarrow> ascii ''Default'' | Expert \<Rightarrow> ascii ''Expert''
      | Creative \<Rightarrow> ascii ''Creative'')"

fun display_chat_history :: "env \<Rightarrow> persona \<Rightarrow> turn list \<Rightarrow> ui list \<times> exn option" where
  "display_chat_history ev p [] = ([], None)"
| "display_chat_history ev p (message # rest) =
     (let texts = [Write ([0x1F464] @ ascii '' You''), Info (human message),
                   Write ([0x1F916] @ ascii '' Assistant ('' @ persona_name p @ ascii '' mode)''),
                   Success (AI message)]
      in case text_to_audio ev (AI message) of
           Inl e \<Rightarrow> (texts, Some e)
         | Inr audio \<Rightarrow>
             (case display_chat_history ev p rest of
                (out, r) \<Rightarrow> (texts @ [Audio audio, Write []] @ out, r)))"

text \<open>The footer (lines 228 to 239); \<^verbatim>\<open>lower()\<close> of the three persona labels.\<close>

definition persona_lower :: "persona \<Rightarrow> pystr" where
  "persona_lower p =
     (case p of Default \<Rightarrow> ascii ''default'' | Expert \<Rightarrow> ascii ''expert''
      | Creative \<Rightarrow> ascii ''creative'')"

definition footer :: "env \<Rightarrow> session_state \<Rightarrow> ui list" where
  "footer ev s =
     [Markdown (ascii ''---''),
      Markdown (ascii ''Using Groq AI with '' @ persona_lower (selected_persona s) @
                ascii '' persona | Memory: '' @ str_int (memory_length ev) @ ascii '' messages''),
      Markdown (ascii ''\<newline>      <div>\<newline>        <p style='' @ [34] @
                ascii ''color:#777770; font-size: 18px;'' @ [34] @ ascii ''>'' @ [0x1F916] @
                ascii '' Built by Kunal Pusdekar '' @ [0x1F680] @
                ascii ''</p>\<newline>      </div>\<newline>    '')]"

text \<open>
  How a run of the script ends: it reaches the last line, it calls \<^verbatim>\<open>st.rerun()\<close>
  (which leaves the script at once and is not an \<^verbatim>\<open>Exception\<close>, so no handler of the
  script catches it), or an exception escapes \<^verbatim>\<open>main\<close>. The two handlers around the
  conversation call are \<^verbatim>\<open>except Exception\<close>: they catch what \<open>is_Exception\<close> holds for.
\<close>

datatype outcome = Finished | Rerun | Uncaught exn

record result =
  session :: session_state
  shown :: "ui list"
  requests :: "request list"
  memory_after :: "memory option"
  outcome :: outcome

definition main :: "env \<Rightarrow> session_state option \<Rightarrow> result" where
  "main ev st =
     (let s0 = initialize_session_state st;
          s1 = s0\<lparr>user_input := text_area ev\<rparr>;
          s = s1\<lparr>selected_persona := persona ev\<rparr>;
          sidebar = [Title ([0x1F6E0, 0xFE0F] @ ascii '' Chat Settings''),
                     Subheader (ascii ''Model Selection''),
                     Subheader (ascii ''Memory Settings''),
                     Subheader (ascii ''AI Persona'')] @ display_chat_statistics ev s
      in if pressed ev = ClearChatHistory then
           \<lparr>session = s\<lparr>chat_history := [], start_time := None, user_input := []\<rparr>,
            shown = sidebar, requests = [], memory_after = None, outcome = Rerun\<rparr>
         else
           (let memory0 = ConversationBufferWindowMemory (memory_length ev);
                conv = \<lparr>llm_model = model ev, llm_api_key = groq_api_key ev,
                        chain_prompt = get_custom_prompt s\<rparr>;
                memory = load_chat_history (chat_history s) memory0;
                page = sidebar @ [Title ([0x1F916] @ ascii '' Groq Chat Assistant'')]
            in case display_chat_history ev (selected_persona s) (chat_history s) of
                 (history_ui, Some e) \<Rightarrow>
                   \<lparr>session = s, shown = page @ history_ui, requests = [],
                    memory_after = Some memory, outcome = Uncaught e\<rparr>
               | (history_ui, None) \<Rightarrow>
                   (let page = page @ history_ui @
                               [Markdown (ascii ''### '' @ [0x1F4AD] @ ascii '' Your Message'')];
                        user_input = user_input s
                    in case pressed ev of
                         UseVoiceInput \<Rightarrow>
                           (case get_voice_input ev of
                              (voice_ui, Inl e) \<Rightarrow>
                                \<lparr>session = s, shown = page @ voice_ui, requests = [],
                                 memory_after = Some memory, outcome = Uncaught e\<rparr>
                            | (voice_ui, Inr voice_input) \<Rightarrow>
                                if voice_input \<noteq> [] then
                                  (case conversation_call (chat ev) conv memory voice_input of
                                     (calls, Inr (response, memory')) \<Rightarrow>
                                       \<lparr>session = s\<lparr>chat_history := chat_history s @
                                                    [\<lparr>human = voice_input, AI = response\<rparr>]\<rparr>,
                                        shown = page @ voice_ui, requests = calls,
                                        memory_after = Some memory', outcome = Rerun\<rparr>
                                   | (calls, Inl e) \<Rightarrow>
                                       if is_Exception e then
                                         \<lparr>session = s,
                                          shown = page @ voice_ui @
                                            [Error ([0x26A0, 0xFE0F] @ ascii '' Error: '' @ str_exn e)] @
                                            footer ev s,
                                          requests = calls, memory_after = Some memory,
                                          outcome = Finished\<rparr>
                                       else
                                         \<lparr>session = s, shown = page @ voice_ui, requests = calls,
                                          memory_after = Some memory, outcome = Uncaught e\<rparr>)
                                else
                                  \<lparr>session = s, shown = page @ voice_ui @ footer ev s,
                                   requests = [], memory_after = Some memory,
                                   outcome = Finished\<rparr>)
                       | Send \<Rightarrow>
                           if strip user_input \<noteq> [] then
                             (let s = (if start_time s = None
                                       then s\<lparr>start_time := Some (now_send ev)\<rparr> else s)
                              in case conversation_call (chat ev) conv memory user_input of
                                   (calls, Inr (response, memory')) \<Rightarrow>
                                     \<lparr>session = s\<lparr>chat_history := chat_history s @
                                                  [\<lparr>human = user_input, AI = response\<rparr>]\<rparr>,
                                      shown = page, requests = calls,
                                      memory_after = Some memory', outcome = Rerun\<rparr>
                                 | (calls, Inl e) \<Rightarrow>
                                     if is_Exception e then
                                       \<lparr>session = s,
                                        shown = page @
                                          [Error ([0x26A0, 0xFE0F] @ ascii '' Error: '' @ str_exn e)] @
                                          footer ev s,
                                        requests = calls, memory_after = Some memory,
                                        outcome = Finished\<rparr>
                                     else
                                       \<lparr>session = s, shown = page, requests = calls,
                                        memory_after = Some memory, outcome = Uncaught e\<rparr>)
                           else
                             \<lparr>session = s, shown = page @ footer ev s, requests = [],
                              memory_after = Some memory, outcome = Finished\<rparr>
                       | NewTopic \<Rightarrow>
                           \<lparr>session = s,
                            shown = page @ [Success (ascii ''Memory cleared for new topic!'')] @
                                    footer ev s,
                            requests = [], memory_after = Some (clear memory),
                            outcome = Finished\<rparr>
                       | _ \<Rightarrow>
                           \<lparr>session = s, shown = page @ footer ev s, requests = [],
                            memory_after = Some memory, outcome = Finished\<rparr>)))"

text \<open>
  The script runner: after \<^verbatim>\<open>st.rerun()\<close> the script runs again at once, with the same
  widget values, no button pressed and the text area showing what the session state holds
  for its key. One user action is a run and, if it asks for one, its rerun.
\<close>

definition rerun_env :: "env \<Rightarrow> session_state \<Rightarrow> env" where
  "rerun_env ev s = ev\<lparr>pressed := NoButton, text_area := user_input s\<rparr>"

definition interact :: "env \<Rightarrow> session_state option \<Rightarrow> result" where
  "interact ev st =
     (let r = main ev st
      in if outcome r = Rerun then main (rerun_env ev (session r)) (Some (session r)) else r)"

fun run_session :: "env list \<Rightarrow> session_state option \<Rightarrow> session_state option" where
  "run_session [] st = st"
| "run_session (ev # evs) st = run_session evs (Some (session (interact ev st)))"

definition transcript :: "session_state option \<Rightarrow> turn list" where
  "transcript st = chat_history (initialize_session_state st)"

section \<open>Names for the intermediate values of a run\<close>

text \<open>
  The values that \<^verbatim>\<open>main\<close> computes on the way: the session state after the widgets
  have written their keys, the memory after the transcript has been loaded into it, the
  request a send issues, and what is on the page when the handlers are reached.
\<close>

definition synced :: "env \<Rightarrow> session_state option \<Rightarrow> session_state" where
  "synced ev st = (initialize_session_state st)\<lparr>user_input := text_area ev, selected_persona := persona ev\<rparr>"

definition run_memory :: "env \<Rightarrow> session_state option \<Rightarrow> memory" where
  "run_memory ev st = load_chat_history (transcript st) (ConversationBufferWindowMemory (memory_length ev))"

definition run_request :: "env \<Rightarrow> session_state option \<Rightarrow> pystr \<Rightarrow> request" where
  "run_request ev st inp =
     chain_request \<lparr>llm_model = model ev, llm_api_key = groq_api_key ev,
                    chain_prompt = get_custom_prompt (synced ev st)\<rparr> (run_memory ev st) inp"

definition sidebar_shown :: "env \<Rightarrow> session_state option \<Rightarrow> ui list" where
  "sidebar_shown ev st =
     [Title ([0x1F6E0, 0xFE0F] @ ascii '' Chat Settings''),
      Subheader (ascii ''Model Selection''),
      Subheader (ascii ''Memory Settings''),
      Subheader (ascii ''AI Persona'')] @ display_chat_statistics ev (synced ev st)"

definition page_shown :: "env \<Rightarrow> session_state option \<Rightarrow> ui list \<Rightarrow> ui list" where
  "page_shown ev st history_ui =
     sidebar_shown ev st @ [Title ([0x1F916] @ ascii '' Groq Chat Assistant'')] @ history_ui @
     [Markdown (ascii ''### '' @ [0x1F4AD] @ ascii '' Your Message'')]"

definition chat_error :: "exn \<Rightarrow> ui" where
  "chat_error e = Error ([0x26A0, 0xFE0F] @ ascii '' Error: '' @ str_exn e)"

section \<open>Notions used to state the properties\<close>

text \<open>
  \<open>spec_last_turns\<close> is the spec's "last n turns, in original order". A send is
  successful when the input is not blank and the chat request the run issued was answered.
  \<open>displayed_content\<close> is what a stored turn shows of itself: the human text, the
  assistant text and its audio.
\<close>

definition spec_last_turns :: "nat \<Rightarrow> 'a list \<Rightarrow> 'a list" where
  "spec_last_turns n xs = rev (take n (rev xs))"




fun is_content :: "ui \<Rightarrow> bool" where
  "is_content (Info t) = True"
| "is_content (Success t) = True"
| "is_content (Audio a) = True"
| "is_content x = False"

definition displayed_content :: "ui list \<Rightarrow> ui list" where
  "displayed_content out = filter is_content out"

definition ex_env :: env where
  "ex_env = \<lparr>model = Gemma2_9b_it, memory_length = 2, persona = Default,
     text_area = ascii ''hi'', pressed = Send, groq_api_key = ascii ''key'',
     now_sidebar = 7000000, now_send = 8000000, microphone = None, listen = Inr [1, 2],
     recognize_google = (\<lambda>a. Inr (ascii ''hello'')), chat = (\<lambda>req. Inr (ascii ''ok'')),
     gTTS = (\<lambda>t. Inr t)\<rparr>"

definition ex_down :: env where
  "ex_down = ex_env\<lparr>chat := \<lambda>req. Inl (OtherException (ascii ''down''))\<rparr>"

definition ex_three :: session_state where
  "ex_three = \<lparr>chat_history = [\<lparr>human = ascii ''A1'', AI = ascii ''B1''\<rparr>,
       \<lparr>human = ascii ''A2'', AI = ascii ''B2''\<rparr>, \<lparr>human = ascii ''A3'', AI = ascii ''B3''\<rparr>],
     total_messages = 0, start_time = Some 1000000, selected_persona = Default, user_input = []\<rparr>"

section \<open>The cases of a run\<close>

lemma initialize_Some [simp]: "initialize_session_state (Some s) = s"
  by (simp add: initialize_session_state_def)

lemmas run_defs = main_def Let_def conversation_call_def transcript_def synced_def
  run_request_def run_memory_def sidebar_shown_def page_shown_def chat_error_def

lemma main_cases:
  fixes ev st
  defines "s \<equiv> synced ev st" and "m \<equiv> run_memory ev st"
    and "d \<equiv> display_chat_history ev (persona ev) (transcript st)"
  obtains
    (clear) "pressed ev = ClearChatHistory"
      "main ev st = \<lparr>session = s\<lparr>chat_history := [], start_time := None, user_input := []\<rparr>,
         shown = sidebar_shown ev st, requests = [], memory_after = None, outcome = Rerun\<rparr>"
  | (tts_failed) hui e where "pressed ev \<noteq> ClearChatHistory" "d = (hui, Some e)"
      "main ev st = \<lparr>session = s,
         shown = sidebar_shown ev st @ [Title ([0x1F916] @ ascii '' Groq Chat Assistant'')] @ hui,
         requests = [], memory_after = Some m, outcome = Uncaught e\<rparr>"
  | (idle) hui where "pressed ev = NoButton" "d = (hui, None)"
      "main ev st = \<lparr>session = s, shown = page_shown ev st hui @ footer ev s,
         requests = [], memory_after = Some m, outcome = Finished\<rparr>"
  | (new_topic) hui where "pressed ev = NewTopic" "d = (hui, None)"
      "main ev st = \<lparr>session = s,
         shown = page_shown ev st hui @ [Success (ascii ''Memory cleared for new topic!'')] @ footer ev s,
         requests = [], memory_after = Some (clear m), outcome = Finished\<rparr>"
  | (send_blank) hui where "pressed ev = Send" "d = (hui, None)" "strip (text_area ev) = []"
      "main ev st = \<lparr>session = s, shown = page_shown ev st hui @ footer ev s,
         requests = [], memory_after = Some m, outcome = Finished\<rparr>"
  | (send_answered) hui response where "pressed ev = Send" "d = (hui, None)"
      "strip (text_area ev) \<noteq> []" "chat ev (run_request ev st (text_area ev)) = Inr response"
      "main ev st = \<lparr>session = s\<lparr>start_time := (case start_time s of None \<Rightarrow> Some (now_send ev) | Some t \<Rightarrow> Some t),
           chat_history := transcript st @ [\<lparr>human = text_area ev, AI = response\<rparr>]\<rparr>,
         shown = page_shown ev st hui,
         requests = [run_request ev st (text_area ev)],
         memory_after = Some (save_context m (text_area ev) response), outcome = Rerun\<rparr>"
  | (send_escaped) hui e where "pressed ev = Send" "d = (hui, None)"
      "strip (text_area ev) \<noteq> []" "chat ev (run_request ev st (text_area ev)) = Inl e"
      "\<not> is_Exception e"
      "main ev st = \<lparr>session = s\<lparr>start_time := (case start_time s of None \<Rightarrow> Some (now_send ev) | Some t \<Rightarrow> Some t)\<rparr>,
         shown = page_shown ev st hui,
         requests = [run_request ev st (text_area ev)],
         memory_after = Some m, outcome = Uncaught e\<rparr>"
  | (send_failed) hui e where "pressed ev = Send" "d = (hui, None)"
      "strip (text_area ev) \<noteq> []" "chat ev (run_request ev st (text_area ev)) = Inl e"
      "is_Exception e"
      "main ev st = \<lparr>session = s\<lparr>start_time := (case start_time s of None \<Rightarrow> Some (now_send ev) | Some t \<Rightarrow> Some t)\<rparr>,
         shown = page_shown ev st hui @ [chat_error e] @
                 footer ev (s\<lparr>start_time := (case start_time s of None \<Rightarrow> Some (now_send ev) | Some t \<Rightarrow> Some t)\<rparr>),
         requests = [run_request ev st (text_area ev)],
         memory_after = Some m, outcome = Finished\<rparr>"
  | (voice_escaped) hui vui e where "pressed ev = UseVoiceInput" "d = (hui, None)"
      "get_voice_input ev = (vui, Inl e)"
      "main ev st = \<lparr>session = s, shown = page_shown ev st hui @ vui,
         requests = [], memory_after = Some m, outcome = Uncaught e\<rparr>"
  | (voice_empty) hui vui where "pressed ev = UseVoiceInput" "d = (hui, None)"
      "get_voice_input ev = (vui, Inr [])"
      "main ev st = \<lparr>session = s, shown = page_shown ev st hui @ vui @ footer ev s,
         requests = [], memory_after = Some m, outcome = Finished\<rparr>"
  | (voice_answered) hui vui spoken response where "pressed ev = UseVoiceInput" "d = (hui, None)"
      "get_voice_input ev = (vui, Inr spoken)" "spoken \<noteq> []"
      "chat ev (run_request ev st spoken) = Inr response"
      "main ev st = \<lparr>session = s\<lparr>chat_history := transcript st @ [\<lparr>human = spoken, AI = response\<rparr>]\<rparr>,
         shown = page_shown ev st hui @ vui,
         requests = [run_request ev st spoken],
         memory_after = Some (save_context m spoken response), outcome = Rerun\<rparr>"
  | (voice_chat_escaped) hui vui spoken e where "pressed ev = UseVoiceInput" "d = (hui, None)"
      "get_voice_input ev = (vui, Inr spoken)" "spoken \<noteq> []"
      "chat ev (run_request ev st spoken) = Inl e" "\<not> is_Exception e"
      "main ev st = \<lparr>session = s, shown = page_shown ev st hui @ vui,
         requests = [run_request ev st spoken],
         memory_after = Some m, outcome = Uncaught e\<rparr>"
  | (voice_failed) hui vui spoken e where "pressed ev = UseVoiceInput" "d = (hui, None)"
      "get_voice_input ev = (vui, Inr spoken)" "spoken \<noteq> []"
      "chat ev (run_request ev st spoken) = Inl e" "is_Exception e"
      "main ev st = \<lparr>session = s,
         shown = page_shown ev st hui @ vui @ [chat_error e] @ footer ev s,
         requests = [run_request ev st spoken],
         memory_after = Some m, outcome = Finished\<rparr>"
proof (cases "pressed ev = ClearChatHistory")
  case True
  then show ?thesis
    by (intro clear) (simp_all add: run_defs s_def)
next
  case not_clear: False
  obtain hui r where disp: "d = (hui, r)"
    by (cases d) auto
  show ?thesis
  proof (cases r)
    case (Some e)
    with not_clear disp show ?thesis
      by (intro tts_failed [of hui e]) (simp_all add: run_defs s_def m_def d_def)
  next
    case None
    note ok = disp [unfolded None]
    show ?thesis
    proof (cases "pressed ev")
      case NoButton
      with ok show ?thesis
        by (intro idle [of hui]) (simp_all add: run_defs s_def m_def d_def)
    next
      case ClearChatHistory
      with not_clear show ?thesis by simp
    next
      case NewTopic
      with ok show ?thesis
        by (intro new_topic [of hui]) (simp_all add: run_defs s_def m_def d_def)
    next
      case Send
      show ?thesis
      proof (cases "strip (text_area ev) = []")
        case True
        with Send ok show ?thesis
          by (intro send_blank [of hui]) (simp_all add: run_defs s_def m_def d_def)
      next
        case False
        show ?thesis
        proof (cases "chat ev (run_request ev st (text_area ev))")
          case (Inr response)
          with False Send ok show ?thesis
            by (intro send_answered [of hui response])
               (auto simp: run_defs s_def m_def d_def split: option.splits)
        next
          case (Inl e)
          show ?thesis
          proof (cases "is_Exception e")
            case True
            with Inl False Send ok show ?thesis
              by (intro send_failed [of hui e])
                 (auto simp: run_defs s_def m_def d_def footer_def split: option.splits)
          next
            case escapes: False
            with Inl False Send ok show ?thesis
              by (intro send_escaped [of hui e])
                 (auto simp: run_defs s_def m_def d_def split: option.splits)
          qed
        qed
      qed
    next
      case UseVoiceInput
      obtain vui v where voice: "get_voice_input ev = (vui, v)"
        by (cases "get_voice_input ev") auto
      show ?thesis
      proof (cases v)
        case (Inl e)
        with voice UseVoiceInput ok show ?thesis
          by (intro voice_escaped [of hui vui e]) (simp_all add: run_defs s_def m_def d_def)
      next
        case (Inr spoken)
        show ?thesis
        proof (cases "spoken = []")
          case True
          with Inr voice UseVoiceInput ok show ?thesis
            by (intro voice_empty [of hui vui]) (simp_all add: run_defs s_def m_def d_def)
        next
          case False
          show ?thesis
          proof (cases "chat ev (run_request ev st spoken)")
            case (Inr response)
            with False \<open>v = Inr spoken\<close> voice UseVoiceInput ok show ?thesis
              by (intro voice_answered [of hui vui spoken response])
                 (simp_all add: run_defs s_def m_def d_def)
          next
            case (Inl e)
            show ?thesis
            proof (cases "is_Exception e")
              case True
              with Inl False \<open>v = Inr spoken\<close> voice UseVoiceInput ok show ?thesis
                by (intro voice_failed [of hui vui spoken e])
                   (simp_all add: run_defs s_def m_def d_def)
            next
              case escapes: False
              with Inl False \<open>v = Inr spoken\<close> voice UseVoiceInput ok show ?thesis
                by (intro voice_chat_escaped [of hui vui spoken e])
                   (simp_all add: run_defs s_def m_def d_def)
            qed
          qed
        qed
      qed
    qed
  qed
qed

lemma transcript_Some [simp]: "transcript (Some s) = chat_history s"
  by (simp add: transcript_def)

lemma session_interact: "session (interact ev st) = session (main ev st)"
proof (cases "outcome (main ev st) = Rerun")
  case False
  then show ?thesis by (simp add: interact_def)
next
  case True
  let ?s = "session (main ev st)"
  have p: "selected_persona ?s = persona ev"
    by (rule main_cases [of ev st]) (simp_all add: synced_def)
  have "session (main (rerun_env ev ?s) (Some ?s)) = synced (rerun_env ev ?s) (Some ?s)"
    by (rule main_cases [of "rerun_env ev ?s" "Some ?s"]) (simp_all add: rerun_env_def)
  also have "\<dots> = ?s"
    using p by (simp add: synced_def rerun_env_def)
  finally show ?thesis using True by (simp add: interact_def Let_def)
qed



lemmas eval_defs = main_def Let_def interact_def rerun_env_def conversation_call_def
  chain_request_def load_chat_history_def ConversationBufferWindowMemory_def save_context_def
  load_memory_variables_def clear_def get_custom_prompt_def text_to_audio_def transcript_def
  initialize_session_state_def get_voice_input_def strip_def isspace_def ascii_def
  ex_env_def ex_three_def ex_down_def




lemma load_chat_history_turns:
  "load_chat_history h m = m\<lparr>mem_turns := mem_turns m @ map (\<lambda>t. (human t, AI t)) h\<rparr>"
  unfolding load_chat_history_def
  by (induction h arbitrary: m) (simp_all add: save_context_def)

lemma run_history:
  "0 < memory_length ev \<Longrightarrow>
   req_history (run_request ev st inp) =
     map (\<lambda>t. (human t, AI t))
       (drop (length (transcript st) - nat (memory_length ev)) (transcript st))"
  by (simp add: run_request_def run_memory_def chain_request_def load_chat_history_turns
      load_memory_variables_def ConversationBufferWindowMemory_def drop_map)

lemma requests_main:
  assumes "req \<in> set (requests (main ev st))"
  obtains inp where "req = run_request ev st inp" "requests (main ev st) = [req]"
    "pressed ev = Send \<or> pressed ev = UseVoiceInput"
  by (rule main_cases [of ev st]) (use assms in auto)

lemma spec_last_turns_drop:
  "spec_last_turns (min (length xs) n) xs = drop (length xs - n) xs"
  by (simp add: spec_last_turns_def take_rev min_def)

text \<open>
  Claim C2. For a transcript of T turns and a window size k between 1 and 10, the context
  carried by a chat request of the next run is exactly the last min(T, k) turns of the
  transcript, in their original order, each as its (human, assistant) pair. The witness is
  the spec's example: window 2 and turns (A1,B1), (A2,B2), (A3,B3) give the context
  (A2,B2), (A3,B3).
\<close>

theorem replayed_context_is_window:
  assumes "req \<in> set (requests (main ev st))" and "memory_length ev \<in> {1..10}"
  shows "req_history req =
           map (\<lambda>t. (human t, AI t))
             (spec_last_turns (min (length (transcript st)) (nat (memory_length ev)))
                (transcript st))"
proof -
  from assms(1) obtain inp where "req = run_request ev st inp"
    by (rule requests_main)
  moreover from assms(2) have "0 < memory_length ev"
    by simp
  ultimately show ?thesis
    by (simp add: run_history spec_last_turns_drop)
qed

theorem replayed_context_is_window_witness:
  "hd (requests (main ex_env (Some ex_three))) \<in> set (requests (main ex_env (Some ex_three))) \<and>
   memory_length ex_env \<in> {1..10} \<and>
   req_history (hd (requests (main ex_env (Some ex_three)))) =
     [(ascii ''A2'', ascii ''B2''), (ascii ''A3'', ascii ''B3'')]"
proof -
  have a: "hd (requests (main ex_env (Some ex_three))) \<in> set (requests (main ex_env (Some ex_three)))"
    by (simp add: eval_defs)
  have b: "memory_length ex_env \<in> {1..10}"
    by (simp add: ex_env_def)
  from replayed_context_is_window [OF a b] a b show ?thesis
    by (simp add: spec_last_turns_def transcript_def ex_three_def ex_env_def)
qed

lemma idle_session: "session (main (ev\<lparr>pressed := NoButton\<rparr>) st) = synced ev st"
  by (rule main_cases [of "ev\<lparr>pressed := NoButton\<rparr>" st]) (simp_all add: synced_def)

lemma chat_failure_run:
  assumes "req \<in> set (requests (main ev st))" and "chat ev req = Inl e" and "is_Exception e"
  shows "chat_error e \<in> set (shown (main ev st)) \<and> outcome (main ev st) = Finished \<and>
         requests (main ev st) = [req] \<and>
         (pressed ev = UseVoiceInput \<and> session (main ev st) = synced ev st \<or>
          pressed ev = Send \<and>
          session (main ev st) =
            (synced ev st)\<lparr>start_time :=
               (case start_time (synced ev st) of None \<Rightarrow> Some (now_send ev) | Some t \<Rightarrow> Some t)\<rparr>)"
  by (rule main_cases [of ev st]) (use assms in auto)

text \<open>
  Claim C3, as amended. When the chat-completion call of a send (text or voice) raises an
  error, that is an \<^verbatim>\<open>Exception\<close>, the transcript after the action is the transcript
  before it, the inline error message with the text of the exception is on the page, and
  the script runs to its end: no exception escapes and no rerun is asked for. The handler
  has called the conversation chain once, which sent this one request, and does not call
  it again. After a failed voice send the session is what a run without any button
  leaves. After a failed text send it is that session with the start time set to the
  clock value of the send if it was unset before: the handler sets it before the call
  (line 211) and the failure does not undo it.
\<close>

theorem chat_failure_leaves_transcript:
  assumes "req \<in> set (requests (main ev st))" and "chat ev req = Inl e" and "is_Exception e"
  shows "chat_history (session (interact ev st)) = transcript st \<and>
         Error ([0x26A0, 0xFE0F] @ ascii '' Error: '' @ str_exn e) \<in> set (shown (interact ev st)) \<and>
         outcome (interact ev st) = Finished \<and>
         requests (interact ev st) = [req] \<and>
         (pressed ev = Send \<or> pressed ev = UseVoiceInput) \<and>
         (pressed ev = UseVoiceInput \<longrightarrow>
            session (interact ev st) = session (main (ev\<lparr>pressed := NoButton\<rparr>) st)) \<and>
         (pressed ev = Send \<longrightarrow>
            session (interact ev st) =
              (session (main (ev\<lparr>pressed := NoButton\<rparr>) st))\<lparr>start_time :=
                 (case start_time (initialize_session_state st) of
                    None \<Rightarrow> Some (now_send ev) | Some t \<Rightarrow> Some t)\<rparr>)"
proof -
  note run = chat_failure_run [OF assms]
  then have same: "interact ev st = main ev st"
    by (simp add: interact_def)
  have start: "start_time (synced ev st) = start_time (initialize_session_state st)"
    by (simp add: synced_def)
  from run have "chat_history (session (main ev st)) = transcript st"
    by (auto simp: synced_def transcript_def)
  moreover from run have "pressed ev = Send \<or> pressed ev = UseVoiceInput"
    by auto
  moreover from run have "pressed ev = UseVoiceInput \<longrightarrow> session (main ev st) = synced ev st"
    by auto
  moreover from run have "pressed ev = Send \<longrightarrow>
      session (main ev st) =
        (synced ev st)\<lparr>start_time :=
           (case start_time (initialize_session_state st) of
              None \<Rightarrow> Some (now_send ev) | Some t \<Rightarrow> Some t)\<rparr>"
    by (auto simp: start)
  ultimately show ?thesis
    using run by (simp add: same idle_session chat_error_def)
qed

theorem chat_failure_leaves_transcript_witness:
  "hd (requests (main ex_down (Some ex_three))) \<in> set (requests (main ex_down (Some ex_three))) \<and>
   chat ex_down (hd (requests (main ex_down (Some ex_three)))) = Inl (OtherException (ascii ''down'')) \<and>
   is_Exception (OtherException (ascii ''down'')) \<and>
   chat_history (session (interact ex_down (Some ex_three))) = chat_history ex_three \<and>
   start_time (session (interact ex_down (Some ex_three))) = start_time ex_three \<and>
   outcome (interact ex_down (Some ex_three)) = Finished \<and>
   hd (requests (main (ex_down\<lparr>pressed := UseVoiceInput\<rparr>) (Some ex_three)))
     \<in> set (requests (main (ex_down\<lparr>pressed := UseVoiceInput\<rparr>) (Some ex_three))) \<and>
   chat_history (session (interact (ex_down\<lparr>pressed := UseVoiceInput\<rparr>) (Some ex_three))) =
     chat_history ex_three \<and>
   outcome (interact (ex_down\<lparr>pressed := UseVoiceInput\<rparr>) (Some ex_three)) = Finished"
proof -
  let ?v = "ex_down\<lparr>pressed := UseVoiceInput\<rparr>"
  let ?st = "Some ex_three"
  have a: "hd (requests (main ex_down ?st)) \<in> set (requests (main ex_down ?st))"
    by (simp add: eval_defs)
  have b: "chat ex_down (hd (requests (main ex_down ?st))) = Inl (OtherException (ascii ''down''))"
    by (simp add: ex_down_def)
  have c: "hd (requests (main ?v ?st)) \<in> set (requests (main ?v ?st))"
    by (simp add: eval_defs)
  have d: "chat ?v (hd (requests (main ?v ?st))) = Inl (OtherException (ascii ''down''))"
    by (simp add: ex_down_def)
  have e: "is_Exception (OtherException (ascii ''down''))"
    by simp
  have f: "pressed ex_down = Send" "start_time ex_three = Some 1000000"
    by (simp_all add: ex_down_def ex_env_def ex_three_def)
  from chat_failure_leaves_transcript [OF a b e] chat_failure_leaves_transcript [OF c d e] a b c e f
  show ?thesis
    by (simp add: transcript_def idle_session synced_def)
qed

text \<open>
  Claim C3 as stated fails in "no partial state": in a fresh session, a first text send
  whose chat call raises leaves the start time set, and the next run shows the statistics
  panel with a message count of 0.
\<close>

theorem chat_failure_sets_timer_counterexample:
  "hd (requests (main ex_down None)) \<in> set (requests (main ex_down None)) \<and>
   chat ex_down (hd (requests (main ex_down None))) = Inl (OtherException (ascii ''down'')) \<and>
   start_time (initialize_session_state None) = None \<and>
   chat_history (session (interact ex_down None)) = [] \<and>
   start_time (session (interact ex_down None)) = Some 8000000 \<and>
   Metric (ascii ''Messages'') (ascii ''0'')
     \<in> set (shown (main (ex_down\<lparr>pressed := NoButton\<rparr>) (Some (session (interact ex_down None)))))"
proof -
  have s: "session (interact ex_down None) =
      \<lparr>chat_history = [], total_messages = 0, start_time = Some 8000000,
       selected_persona = Default, user_input = ascii ''hi''\<rparr>"
    by (simp add: eval_defs)
  have "Metric (ascii ''Messages'') (ascii ''0'')
     \<in> set (display_chat_statistics (ex_down\<lparr>pressed := NoButton\<rparr>)
         (synced (ex_down\<lparr>pressed := NoButton\<rparr>) (Some (session (interact ex_down None)))))"
    unfolding s by (simp add: display_chat_statistics_def Let_def synced_def str_nat.simps ascii_def)
  then have "Metric (ascii ''Messages'') (ascii ''0'')
     \<in> set (shown (main (ex_down\<lparr>pressed := NoButton\<rparr>) (Some (session (interact ex_down None)))))"
    by (rule_tac main_cases [of "ex_down\<lparr>pressed := NoButton\<rparr>" "Some (session (interact ex_down None))"])
       (simp_all add: sidebar_shown_def page_shown_def)
  moreover have "hd (requests (main ex_down None)) \<in> set (requests (main ex_down None))"
    by (simp add: eval_defs)
  moreover have "chat ex_down (hd (requests (main ex_down None))) = Inl (OtherException (ascii ''down''))"
    by (simp add: ex_down_def)
  ultimately show ?thesis
    by (simp add: s initialize_session_state_def)
qed

lemma chat_base_exception_escapes:
  assumes "req \<in> set (requests (main ev st))" and "chat ev req = Inl e" and "\<not> is_Exception e"
  shows "outcome (main ev st) = Uncaught e \<and> chat_history (session (main ev st)) = transcript st"
  by (rule main_cases [of ev st]) (use assms in \<open>auto simp: synced_def transcript_def\<close>)

text \<open>
  Claim C4. With the microphone open, each of the three speech-recognition failures (the
  listen call timing out, unintelligible audio, a failed request to the recognition
  service) makes \<^verbatim>\<open>get_voice_input\<close> return the empty string, and no exception
  escapes; when recognition succeeds it returns the recognised text.
\<close>

theorem voice_failures_give_empty_text:
  assumes "microphone ev = None"
  shows "(listen ev = Inl (WaitTimeoutError m) \<longrightarrow> snd (get_voice_input ev) = Inr []) \<and>
         (listen ev = Inr a \<and> recognize_google ev a = Inl (UnknownValueError m) \<longrightarrow>
            snd (get_voice_input ev) = Inr []) \<and>
         (listen ev = Inr a \<and> recognize_google ev a = Inl (RequestError m) \<longrightarrow>
            snd (get_voice_input ev) = Inr []) \<and>
         (listen ev = Inr a \<and> recognize_google ev a = Inr spoken \<longrightarrow>
            snd (get_voice_input ev) = Inr spoken)"
  using assms by (simp add: get_voice_input_def)

theorem voice_failures_give_empty_text_witness:
  "microphone ex_env = None \<and>
   snd (get_voice_input (ex_env\<lparr>listen := Inl (WaitTimeoutError (ascii ''timeout''))\<rparr>)) = Inr [] \<and>
   snd (get_voice_input (ex_env\<lparr>recognize_google := \<lambda>a. Inl (UnknownValueError [])\<rparr>)) = Inr [] \<and>
   snd (get_voice_input (ex_env\<lparr>recognize_google := \<lambda>a. Inl (RequestError (ascii ''offline''))\<rparr>)) = Inr [] \<and>
   snd (get_voice_input ex_env) = Inr (ascii ''hello'')"
  using
    voice_failures_give_empty_text
      [where ev = "ex_env\<lparr>listen := Inl (WaitTimeoutError (ascii ''timeout''))\<rparr>"
         and m = "ascii ''timeout''"]
    voice_failures_give_empty_text
      [where ev = "ex_env\<lparr>recognize_google := \<lambda>a. Inl (UnknownValueError [])\<rparr>"
         and a = "[1, 2]" and m = "[]"]
    voice_failures_give_empty_text
      [where ev = "ex_env\<lparr>recognize_google := \<lambda>a. Inl (RequestError (ascii ''offline''))\<rparr>"
         and a = "[1, 2]" and m = "ascii ''offline''"]
    voice_failures_give_empty_text [where ev = ex_env and a = "[1, 2]" and spoken = "ascii ''hello''"]
  by (simp add: ex_env_def)

text \<open>
  Claim C5. Whatever the session state was, the clear-history action leaves the transcript
  empty and the start time unset, both when its run ends and after the rerun it asks for.
\<close>

theorem clear_history_resets:
  assumes "pressed ev = ClearChatHistory"
  shows "chat_history (session (interact ev st)) = [] \<and>
         start_time (session (interact ev st)) = None \<and>
         chat_history (session (main ev st)) = [] \<and>
         start_time (session (main ev st)) = None"
proof -
  have "chat_history (session (main ev st)) = [] \<and> start_time (session (main ev st)) = None"
    by (rule main_cases [of ev st]) (use assms in auto)
  then show ?thesis
    by (simp add: session_interact)
qed

theorem clear_history_resets_witness:
  "pressed (ex_env\<lparr>pressed := ClearChatHistory\<rparr>) = ClearChatHistory \<and>
   length (chat_history ex_three) = 3 \<and> start_time ex_three = Some 1000000 \<and>
   chat_history (session (interact (ex_env\<lparr>pressed := ClearChatHistory\<rparr>) (Some ex_three))) = [] \<and>
   start_time (session (interact (ex_env\<lparr>pressed := ClearChatHistory\<rparr>) (Some ex_three))) = None"
  using clear_history_resets [of "ex_env\<lparr>pressed := ClearChatHistory\<rparr>" "Some ex_three"]
  by (simp add: ex_three_def)

lemma history_step:
  "pressed ev \<noteq> ClearChatHistory \<Longrightarrow>
   \<exists>new. chat_history (session (main ev st)) = transcript st @ new \<and> length new \<le> 1"
  by (rule main_cases [of ev st]) (auto simp: synced_def transcript_def)

text \<open>
  Claim C8. Every action (any button, or none, as for a change of persona or model), from
  every session state: the clear action leaves the transcript empty; every other action
  leaves the old transcript in place as a prefix of the new one, followed by at most one
  new turn. No stored turn is edited or moved.
\<close>

theorem stored_turns_never_edited:
  "(pressed ev = ClearChatHistory \<longrightarrow> chat_history (session (interact ev st)) = []) \<and>
   (pressed ev \<noteq> ClearChatHistory \<longrightarrow>
      (\<exists>new. chat_history (session (interact ev st)) = transcript st @ new \<and> length new \<le> 1))"
proof -
  have "pressed ev = ClearChatHistory \<Longrightarrow> chat_history (session (main ev st)) = []"
    by (rule main_cases [of ev st]) auto
  with history_step [of ev st] show ?thesis
    by (auto simp: session_interact)
qed

theorem stored_turns_never_edited_witness:
  "chat_history (session (interact (ex_env\<lparr>pressed := ClearChatHistory\<rparr>) (Some ex_three))) = [] \<and>
   chat_history (session (interact ex_env (Some ex_three))) =
     chat_history ex_three @ [\<lparr>human = ascii ''hi'', AI = ascii ''ok''\<rparr>] \<and>
   chat_history (session (interact (ex_env\<lparr>pressed := NewTopic\<rparr>) (Some ex_three))) =
     chat_history ex_three"
  using stored_turns_never_edited [of "ex_env\<lparr>pressed := ClearChatHistory\<rparr>" "Some ex_three"]
    stored_turns_never_edited [of ex_env "Some ex_three"]
    stored_turns_never_edited [of "ex_env\<lparr>pressed := NewTopic\<rparr>" "Some ex_three"]
  by (simp add: eval_defs)

text \<open>
  Claim C9. A send whose text is empty or only whitespace issues no chat request and
  leaves the session exactly as a run without any button does (transcript and start time
  unchanged); a voice capture that yields the empty string issues no chat request and
  leaves transcript and start time unchanged as well.
\<close>

theorem blank_input_is_no_op:
  "(pressed ev = Send \<and> strip (text_area ev) = [] \<longrightarrow>
      requests (interact ev st) = [] \<and>
      session (interact ev st) = session (main (ev\<lparr>pressed := NoButton\<rparr>) st) \<and>
      chat_history (session (interact ev st)) = transcript st \<and>
      start_time (session (interact ev st)) = start_time (initialize_session_state st)) \<and>
   (pressed ev = UseVoiceInput \<and> snd (get_voice_input ev) = Inr [] \<longrightarrow>
      requests (interact ev st) = [] \<and>
      chat_history (session (interact ev st)) = transcript st \<and>
      start_time (session (interact ev st)) = start_time (initialize_session_state st))"
proof -
  have idle: "session (main (ev\<lparr>pressed := NoButton\<rparr>) st) = synced ev st"
    by (rule main_cases [of "ev\<lparr>pressed := NoButton\<rparr>" st]) (simp_all add: synced_def)
  have "pressed ev = Send \<and> strip (text_area ev) = [] \<or>
        pressed ev = UseVoiceInput \<and> snd (get_voice_input ev) = Inr [] \<Longrightarrow>
        requests (main ev st) = [] \<and> session (main ev st) = synced ev st \<and>
        outcome (main ev st) \<noteq> Rerun"
    by (rule main_cases [of ev st]) auto
  then show ?thesis
    by (auto simp: interact_def idle synced_def transcript_def)
qed

theorem blank_input_is_no_op_witness:
  "strip (text_area (ex_env\<lparr>text_area := [32, 9, 10, 160]\<rparr>)) = [] \<and>
   session (interact (ex_env\<lparr>text_area := [32, 9, 10, 160]\<rparr>) None) =
     \<lparr>chat_history = [], total_messages = 0, start_time = None, selected_persona = Default,
      user_input = [32, 9, 10, 160]\<rparr> \<and>
   snd (get_voice_input (ex_env\<lparr>pressed := UseVoiceInput, listen := Inl (WaitTimeoutError [])\<rparr>)) = Inr [] \<and>
   chat_history (session (interact (ex_env\<lparr>pressed := UseVoiceInput, listen := Inl (WaitTimeoutError [])\<rparr>)
     (Some ex_three))) = chat_history ex_three"
  using blank_input_is_no_op [of "ex_env\<lparr>text_area := [32, 9, 10, 160]\<rparr>" None]
    blank_input_is_no_op [of "ex_env\<lparr>pressed := UseVoiceInput, listen := Inl (WaitTimeoutError [])\<rparr>"
      "Some ex_three"]
  by (simp add: eval_defs)

section \<open>Rendering of stored turns, new topic, and the start time\<close>

lemma display_model_irrelevant:
  "gTTS ev' = gTTS ev \<Longrightarrow> display_chat_history ev' p h = display_chat_history ev p h"
  by (induction h) (simp_all add: text_to_audio_def Let_def split: sum.splits)

lemma display_content_persona:
  "displayed_content (fst (display_chat_history ev q h)) =
     displayed_content (fst (display_chat_history ev p h)) \<and>
   snd (display_chat_history ev q h) = snd (display_chat_history ev p h)"
  by (induction h) (auto simp: displayed_content_def Let_def split: sum.splits prod.splits)

lemma display_header:
  "h \<noteq> [] \<Longrightarrow>
   Write ([0x1F916] @ ascii '' Assistant ('' @ persona_name p @ ascii '' mode)'')
     \<in> set (fst (display_chat_history ev p h))"
proof (cases h)
  case Nil
  assume "h \<noteq> []"
  with Nil show ?thesis by simp
next
  case (Cons t rest)
  show ?thesis
    unfolding Cons
    by (cases "text_to_audio ev (AI t)"; cases "display_chat_history ev p rest")
       (simp_all add: Let_def)
qed

lemma content_stats: "displayed_content (display_chat_statistics ev s) = []"
  by (cases "start_time s") (simp_all add: display_chat_statistics_def displayed_content_def Let_def)

lemma content_footer: "displayed_content (footer ev s) = []"
  by (simp add: footer_def displayed_content_def)

lemma content_sidebar: "displayed_content (sidebar_shown ev st) = []"
  using content_stats [of ev "synced ev st"] by (simp add: sidebar_shown_def displayed_content_def)

lemma content_page: "displayed_content (page_shown ev st hui) = displayed_content hui"
  using content_sidebar [of ev st] by (simp add: page_shown_def displayed_content_def)

lemma idle_content:
  assumes "pressed ev = NoButton"
  shows "displayed_content (shown (main ev st)) =
           displayed_content (fst (display_chat_history ev (persona ev) (transcript st)))"
proof (rule main_cases [of ev st])
  fix hui e
  assume "display_chat_history ev (persona ev) (transcript st) = (hui, Some e)"
    and "main ev st = \<lparr>session = synced ev st,
         shown = sidebar_shown ev st @ [Title ([0x1F916] @ ascii '' Groq Chat Assistant'')] @ hui,
         requests = [], memory_after = Some (run_memory ev st), outcome = Uncaught e\<rparr>"
  then show ?thesis
    using content_sidebar [of ev st] by (simp add: displayed_content_def)
next
  fix hui
  assume "display_chat_history ev (persona ev) (transcript st) = (hui, None)"
    and "main ev st = \<lparr>session = synced ev st,
         shown = page_shown ev st hui @ footer ev (synced ev st),
         requests = [], memory_after = Some (run_memory ev st), outcome = Finished\<rparr>"
  then show ?thesis
    using content_page [of ev st hui] content_footer [of ev "synced ev st"]
    by (simp add: displayed_content_def)
qed (use assms in simp_all)

lemma display_closed_form:
  "fst (display_chat_history ev q h) =
     concat (map (\<lambda>t. [Write ([0x1F464] @ ascii '' You''), Info (human t),
                        Write ([0x1F916] @ ascii '' Assistant ('' @ persona_name q @ ascii '' mode)''),
                        Success (AI t)] @
                       (case gTTS ev (AI t) of Inl e \<Rightarrow> [] | Inr a \<Rightarrow> [Audio a, Write []]))
       (take (Suc (length (takeWhile (\<lambda>t. case gTTS ev (AI t) of Inl e \<Rightarrow> False | Inr a \<Rightarrow> True) h)))
          h))"
proof (induction h)
  case Nil
  show ?case by simp
next
  case (Cons t rest)
  show ?case
  proof (cases "gTTS ev (AI t)")
    case (Inl e)
    then show ?thesis
      by (simp add: text_to_audio_def Let_def)
  next
    case (Inr a)
    obtain out r where rest: "display_chat_history ev q rest = (out, r)"
      by (cases "display_chat_history ev q rest") auto
    with Cons.IH have "out = concat (map (\<lambda>t. [Write ([0x1F464] @ ascii '' You''), Info (human t),
                        Write ([0x1F916] @ ascii '' Assistant ('' @ persona_name q @ ascii '' mode)''),
                        Success (AI t)] @
                       (case gTTS ev (AI t) of Inl e \<Rightarrow> [] | Inr a \<Rightarrow> [Audio a, Write []]))
       (take (Suc (length (takeWhile (\<lambda>t. case gTTS ev (AI t) of Inl e \<Rightarrow> False | Inr a \<Rightarrow> True) rest)))
          rest))"
      by simp
    with Inr rest show ?thesis
      by (simp add: text_to_audio_def Let_def)
  qed
qed

lemma persona_name_inject: "persona_name p = persona_name q \<Longrightarrow> p = q"
  by (cases p; cases q) (simp_all add: persona_name_def ascii_def)

lemma personas_inject: "personas p = personas q \<Longrightarrow> p = q"
  by (cases p; cases q) (simp_all add: personas_def ascii_def)

lemma request_selection:
  assumes "req \<in> set (requests (main ev st))"
  shows "req_model req = model ev \<and>
         req_prompt req = \<lparr>input_variables = [ascii ''history'', ascii ''input''],
                            template = personas (persona ev)\<rparr>"
proof -
  from assms obtain inp where "req = run_request ev st inp"
    by (rule requests_main)
  then show ?thesis
    by (simp add: run_request_def chain_request_def get_custom_prompt_def synced_def)
qed

text \<open>
  Claim C6, as amended. The persona and the model selected in a run go into the requests
  of that run: a request carries the model and the prompt template of the selection made
  now, whatever was selected when the stored turns were appended, and different personas
  have different templates. The stored turns are not affected: changing the model never
  changes how they are displayed, and changing the persona leaves the displayed content of
  every stored turn (human text, assistant text, audio) and the transcript unchanged, in
  the display loop and in a run of the script. But the header line of each displayed
  assistant reply names the persona selected now, whichever persona was selected when the
  turn was appended: the display is, turn by turn, the "You" line, the human text, the
  header with the current persona, the assistant text and, where speech synthesis
  succeeds, the audio; it ends with the first turn whose synthesis fails.
\<close>

theorem stored_turn_content_unaffected:
  "display_chat_history (ev\<lparr>model := m\<rparr>) p h = display_chat_history ev p h \<and>
   displayed_content (fst (display_chat_history ev q h)) =
     displayed_content (fst (display_chat_history ev p h)) \<and>
   snd (display_chat_history ev q h) = snd (display_chat_history ev p h) \<and>
   fst (display_chat_history ev q h) =
     concat (map (\<lambda>t. [Write ([0x1F464] @ ascii '' You''), Info (human t),
                        Write ([0x1F916] @ ascii '' Assistant ('' @ persona_name q @ ascii '' mode)''),
                        Success (AI t)] @
                       (case gTTS ev (AI t) of Inl e \<Rightarrow> [] | Inr a \<Rightarrow> [Audio a, Write []]))
       (take (Suc (length (takeWhile (\<lambda>t. case gTTS ev (AI t) of Inl e \<Rightarrow> False | Inr a \<Rightarrow> True) h)))
          h)) \<and>
   (persona_name p = persona_name q \<longrightarrow> p = q) \<and>
   (h \<noteq> [] \<longrightarrow>
      Write ([0x1F916] @ ascii '' Assistant ('' @ persona_name q @ ascii '' mode)'')
        \<in> set (fst (display_chat_history ev q h))) \<and>
   (pressed ev = NoButton \<longrightarrow>
      displayed_content (shown (main (ev\<lparr>model := m, persona := q\<rparr>) st)) =
        displayed_content (shown (main ev st)) \<and>
      chat_history (session (main (ev\<lparr>model := m, persona := q\<rparr>) st)) = transcript st) \<and>
   (req \<in> set (requests (main ev st)) \<longrightarrow>
      req_model req = model ev \<and>
      req_prompt req = \<lparr>input_variables = [ascii ''history'', ascii ''input''],
                         template = personas (persona ev)\<rparr>) \<and>
   (personas p = personas q \<longrightarrow> p = q)"
proof -
  have content: "displayed_content (shown (main (ev\<lparr>model := m, persona := q\<rparr>) st)) =
          displayed_content (shown (main ev st))" if "pressed ev = NoButton"
  proof -
    have "display_chat_history (ev\<lparr>model := m, persona := q\<rparr>) q (transcript st) =
            display_chat_history ev q (transcript st)"
      by (rule display_model_irrelevant) simp
    with that show ?thesis
      by (simp add: idle_content display_content_persona)
  qed
  have kept: "chat_history (session (main (ev\<lparr>model := m, persona := q\<rparr>) st)) = transcript st"
    if "pressed ev = NoButton"
    by (rule main_cases [of "ev\<lparr>model := m, persona := q\<rparr>" st])
       (use that in \<open>simp_all add: synced_def transcript_def\<close>)
  have model: "display_chat_history (ev\<lparr>model := m\<rparr>) p h = display_chat_history ev p h"
    by (rule display_model_irrelevant) simp
  note persona = display_content_persona [of ev q h p]
  note form = display_closed_form [of ev q h]
  have header: "h \<noteq> [] \<longrightarrow>
      Write ([0x1F916] @ ascii '' Assistant ('' @ persona_name q @ ascii '' mode)'')
        \<in> set (fst (display_chat_history ev q h))"
    using display_header [of h q ev] by blast
  have names: "persona_name p = persona_name q \<longrightarrow> p = q"
    using persona_name_inject [of p q] by blast
  have templates: "personas p = personas q \<longrightarrow> p = q"
    using personas_inject [of p q] by blast
  have request: "req \<in> set (requests (main ev st)) \<longrightarrow>
      req_model req = model ev \<and>
      req_prompt req = \<lparr>input_variables = [ascii ''history'', ascii ''input''],
                         template = personas (persona ev)\<rparr>"
    using request_selection [of req ev st] by blast
  have idle: "pressed ev = NoButton \<longrightarrow>
      displayed_content (shown (main (ev\<lparr>model := m, persona := q\<rparr>) st)) =
        displayed_content (shown (main ev st)) \<and>
      chat_history (session (main (ev\<lparr>model := m, persona := q\<rparr>) st)) = transcript st"
    using content kept by blast
  from model persona form names header idle request templates show ?thesis
    by (intro conjI) (erule conjunct1 conjunct2 | assumption)+
qed

theorem stored_turn_content_unaffected_witness:
  "pressed (ex_env\<lparr>pressed := NoButton\<rparr>) = NoButton \<and> chat_history ex_three \<noteq> [] \<and>
   displayed_content (shown (main (ex_env\<lparr>pressed := NoButton, model := Llama2_70b_4096,
       persona := Expert\<rparr>) (Some ex_three))) =
     [Info (ascii ''A1''), Success (ascii ''B1''), Audio (ascii ''B1''),
      Info (ascii ''A2''), Success (ascii ''B2''), Audio (ascii ''B2''),
      Info (ascii ''A3''), Success (ascii ''B3''), Audio (ascii ''B3'')] \<and>
   hd (requests (main (ex_env\<lparr>model := Llama2_70b_4096, persona := Expert\<rparr>) (Some ex_three)))
     \<in> set (requests (main (ex_env\<lparr>model := Llama2_70b_4096, persona := Expert\<rparr>) (Some ex_three))) \<and>
   selected_persona ex_three = Default \<and>
   req_model (hd (requests (main (ex_env\<lparr>model := Llama2_70b_4096, persona := Expert\<rparr>)
     (Some ex_three)))) = Llama2_70b_4096 \<and>
   template (req_prompt (hd (requests (main (ex_env\<lparr>model := Llama2_70b_4096, persona := Expert\<rparr>)
     (Some ex_three))))) = personas Expert \<and>
   personas Expert \<noteq> personas Default \<and> persona_name Expert \<noteq> persona_name Default"
proof -
  let ?idle = "ex_env\<lparr>pressed := NoButton\<rparr>"
  let ?send = "ex_env\<lparr>model := Llama2_70b_4096, persona := Expert\<rparr>"
  let ?req = "hd (requests (main ?send (Some ex_three)))"
  have a: "?req \<in> set (requests (main ?send (Some ex_three)))"
    by (simp add: eval_defs)
  have b: "displayed_content (shown (main ?idle (Some ex_three))) =
     [Info (ascii ''A1''), Success (ascii ''B1''), Audio (ascii ''B1''),
      Info (ascii ''A2''), Success (ascii ''B2''), Audio (ascii ''B2''),
      Info (ascii ''A3''), Success (ascii ''B3''), Audio (ascii ''B3'')]"
    by (simp add: eval_defs displayed_content_def display_chat_statistics_def footer_def)
  have c: "pressed ?idle = NoButton" "chat_history ex_three \<noteq> []" "selected_persona ex_three = Default"
    by (simp_all add: ex_three_def)
  from stored_turn_content_unaffected [where ev = ?idle and m = Llama2_70b_4096 and p = Default
      and h = "chat_history ex_three" and q = Expert and st = "Some ex_three"]
    stored_turn_content_unaffected [where ev = ?send and p = Expert and q = Default
      and st = "Some ex_three" and req = ?req] a b c
  show ?thesis
    by auto
qed

text \<open>
  Claim C6 as stated fails: a turn sent under the Default persona is shown under the
  header "Assistant (Default mode)" while Default stays selected, and under
  "Assistant (Expert mode)" once Expert is selected.
\<close>

theorem stored_turn_header_counterexample:
  "Write ([0x1F916] @ ascii '' Assistant (Default mode)'')
     \<in> set (shown (main (ex_env\<lparr>pressed := NoButton\<rparr>) (Some (session (interact ex_env None))))) \<and>
   Write ([0x1F916] @ ascii '' Assistant (Default mode)'')
     \<notin> set (shown (main (ex_env\<lparr>pressed := NoButton, persona := Expert\<rparr>)
         (Some (session (interact ex_env None))))) \<and>
   Write ([0x1F916] @ ascii '' Assistant (Expert mode)'')
     \<in> set (shown (main (ex_env\<lparr>pressed := NoButton, persona := Expert\<rparr>)
         (Some (session (interact ex_env None)))))"
  by (simp add: eval_defs display_chat_statistics_def footer_def persona_name_def persona_lower_def)

text \<open>
  Claim C7. The new-topic action leaves the transcript unchanged and clears the memory
  object of its own run. That object is local to the run: the next run builds a new
  memory from the whole transcript, so the request of a send that follows a new-topic
  action still carries the last turns of the transcript as context. Here the transcript
  holds three turns and the window is 2; after new topic the next send replays (A2,B2),
  (A3,B3).
\<close>

theorem new_topic_then_send_replays_history:
  "chat_history (session (interact (ex_env\<lparr>pressed := NewTopic\<rparr>) (Some ex_three))) =
     chat_history ex_three \<and>
   memory_after (main (ex_env\<lparr>pressed := NewTopic\<rparr>) (Some ex_three)) =
     Some \<lparr>mem_k = 2, mem_turns = []\<rparr> \<and>
   map req_history
     (requests (main ex_env (Some (session (interact (ex_env\<lparr>pressed := NewTopic\<rparr>) (Some ex_three)))))) =
     [[(ascii ''A2'', ascii ''B2''), (ascii ''A3'', ascii ''B3'')]]"
  by (simp add: eval_defs)

lemma no_metric_display: "Metric a b \<notin> set (fst (display_chat_history ev p h))"
  by (induction h) (auto simp: Let_def split: sum.splits prod.splits)

lemma no_metric_voice: "Metric a b \<notin> set (fst (get_voice_input ev))"
  by (auto simp: get_voice_input_def Let_def split: option.splits sum.splits exn.splits)

lemma no_metric_footer: "Metric a b \<notin> set (footer ev s)"
  by (simp add: footer_def)

lemma no_metric_sidebar:
  "start_time (initialize_session_state st) = None \<Longrightarrow> Metric a b \<notin> set (sidebar_shown ev st)"
  by (simp add: sidebar_shown_def display_chat_statistics_def synced_def)

lemma no_metric_page:
  "start_time (initialize_session_state st) = None \<Longrightarrow> Metric a b \<notin> set hui \<Longrightarrow>
   Metric a b \<notin> set (page_shown ev st hui)"
  using no_metric_sidebar [of st a b ev] by (simp add: page_shown_def)

lemma stats_hidden:
  assumes "start_time (initialize_session_state st) = None"
  shows "Metric a b \<notin> set (shown (main ev st))"
proof -
  have d: "Metric a b \<notin> set hui" if "display_chat_history ev (persona ev) (transcript st) = (hui, r)"
    for hui r
    using no_metric_display [of a b ev "persona ev" "transcript st"] that by simp
  have v: "Metric a b \<notin> set vui" if "get_voice_input ev = (vui, r)" for vui r
    using no_metric_voice [of a b ev] that by simp
  note side = no_metric_sidebar [OF assms, of a b ev]
  note page = no_metric_page [OF assms, of a b _ ev]
  show ?thesis
    by (rule main_cases [of ev st])
       (simp_all add: side page d v no_metric_footer chat_error_def)
qed

lemma start_time_kept:
  "pressed ev \<noteq> Send \<Longrightarrow> pressed ev \<noteq> ClearChatHistory \<Longrightarrow>
   start_time (session (main ev st)) = start_time (initialize_session_state st)"
  by (rule main_cases [of ev st]) (simp_all add: synced_def)

lemma voice_only_session:
  "\<forall>v\<in>set evs. pressed v = UseVoiceInput \<Longrightarrow>
   start_time (initialize_session_state (run_session evs st)) =
     start_time (initialize_session_state st)"
proof (induction evs arbitrary: st)
  case Nil
  then show ?case by simp
next
  case (Cons ev evs)
  then have "start_time (initialize_session_state (run_session evs (Some (session (interact ev st))))) =
               start_time (session (main ev st))"
    by (simp add: session_interact)
  also have "\<dots> = start_time (initialize_session_state st)"
    using Cons.prems by (simp add: start_time_kept)
  finally show ?case by simp
qed

lemma timer_set_only_by_send:
  "start_time (initialize_session_state st) = None \<Longrightarrow> start_time (session (main ev st)) \<noteq> None \<Longrightarrow>
   pressed ev = Send \<and> strip (text_area ev) \<noteq> [] \<and>
   start_time (session (main ev st)) = Some (now_send ev)"
  by (rule main_cases [of ev st]) (simp_all add: synced_def)

lemma first_text_send_sets_timer:
  "pressed ev = Send \<Longrightarrow> strip (text_area ev) \<noteq> [] \<Longrightarrow>
   snd (display_chat_history ev (persona ev) (transcript st)) = None \<Longrightarrow>
   start_time (initialize_session_state st) = None \<Longrightarrow>
   start_time (session (main ev st)) = Some (now_send ev)"
  by (rule main_cases [of ev st]) (simp_all add: synced_def)

text \<open>
  Claim C10. Only a text send sets the start time: if an action turns an unset start time
  into a set one, it is a send with non-blank text and the time is the clock value read
  by that send; and a first text send that reaches its handler does set it. A session
  made of voice sends only, from a fresh start, leaves the start time unset, so the
  statistics panel is empty and no metric (message count, duration) is on the page of any
  further run.
\<close>

theorem only_text_send_starts_timer:
  "(start_time (initialize_session_state st) = None \<and>
    start_time (session (interact ev st)) \<noteq> None \<longrightarrow>
      pressed ev = Send \<and> strip (text_area ev) \<noteq> [] \<and>
      start_time (session (interact ev st)) = Some (now_send ev)) \<and>
   (pressed ev = Send \<and> strip (text_area ev) \<noteq> [] \<and>
    snd (display_chat_history ev (persona ev) (transcript st)) = None \<and>
    start_time (initialize_session_state st) = None \<longrightarrow>
      start_time (session (interact ev st)) = Some (now_send ev)) \<and>
   ((\<forall>v\<in>set evs. pressed v = UseVoiceInput) \<longrightarrow>
      start_time (initialize_session_state (run_session evs None)) = None \<and>
      display_chat_statistics ev' (initialize_session_state (run_session evs None)) = [] \<and>
      Metric a b \<notin> set (shown (main ev' (run_session evs None))))"
proof -
  let ?final = "run_session evs None"
  have fresh: "start_time (initialize_session_state None) = None"
    by (simp add: initialize_session_state_def)
  have only: "start_time (initialize_session_state st) = None \<and>
      start_time (session (interact ev st)) \<noteq> None \<longrightarrow>
      pressed ev = Send \<and> strip (text_area ev) \<noteq> [] \<and>
      start_time (session (interact ev st)) = Some (now_send ev)"
    using timer_set_only_by_send [of st ev] by (simp add: session_interact)
  have first: "pressed ev = Send \<and> strip (text_area ev) \<noteq> [] \<and>
      snd (display_chat_history ev (persona ev) (transcript st)) = None \<and>
      start_time (initialize_session_state st) = None \<longrightarrow>
      start_time (session (interact ev st)) = Some (now_send ev)"
    using first_text_send_sets_timer [of ev st] by (simp add: session_interact)
  have voice: "(\<forall>v\<in>set evs. pressed v = UseVoiceInput) \<longrightarrow>
      start_time (initialize_session_state ?final) = None \<and>
      display_chat_statistics ev' (initialize_session_state ?final) = [] \<and>
      Metric a b \<notin> set (shown (main ev' ?final))"
  proof
    assume all: "\<forall>v\<in>set evs. pressed v = UseVoiceInput"
    have unset: "start_time (initialize_session_state ?final) = None"
      using voice_only_session [OF all, of None] fresh by simp
    have "display_chat_statistics ev' (initialize_session_state ?final) = []"
      unfolding display_chat_statistics_def using unset by simp
    moreover have "Metric a b \<notin> set (shown (main ev' ?final))"
      by (rule stats_hidden [OF unset])
    ultimately show "start_time (initialize_session_state ?final) = None \<and>
      display_chat_statistics ev' (initialize_session_state ?final) = [] \<and>
      Metric a b \<notin> set (shown (main ev' ?final))"
      using unset by (intro conjI)
  qed
  from only first voice show ?thesis
    by (intro conjI)
qed

theorem only_text_send_starts_timer_witness:
  "start_time (initialize_session_state None) = None \<and> pressed ex_env = Send \<and>
   start_time (session (interact ex_env None)) = Some 8000000 \<and>
   pressed (ex_env\<lparr>pressed := UseVoiceInput\<rparr>) = UseVoiceInput \<and>
   transcript (run_session [ex_env\<lparr>pressed := UseVoiceInput\<rparr>] None) =
     [\<lparr>human = ascii ''hello'', AI = ascii ''ok''\<rparr>] \<and>
   start_time (initialize_session_state (run_session [ex_env\<lparr>pressed := UseVoiceInput\<rparr>] None)) = None \<and>
   Metric (ascii ''Messages'') (ascii ''1'') \<notin> set (shown (main (ex_env\<lparr>pressed := UseVoiceInput\<rparr>)
     (run_session [ex_env\<lparr>pressed := UseVoiceInput\<rparr>] None)))"
proof -
  let ?vo = "ex_env\<lparr>pressed := UseVoiceInput\<rparr>"
  have fresh: "start_time (initialize_session_state None) = None"
    by (simp add: initialize_session_state_def)
  have sent: "start_time (session (interact ex_env None)) = Some 8000000"
    by (simp add: eval_defs)
  have voice: "\<forall>v\<in>set [?vo]. pressed v = UseVoiceInput"
    by simp
  have spoken: "transcript (run_session [?vo] None) = [\<lparr>human = ascii ''hello'', AI = ascii ''ok''\<rparr>]"
    by (simp add: eval_defs)
  from only_text_send_starts_timer [where st = None and ev = ex_env and evs = "[?vo]"
      and ev' = ?vo and a = "ascii ''Messages''" and b = "ascii ''1''"] fresh sent voice spoken
  show ?thesis
    by (simp add: ex_env_def)
qed

end
